theory Spec2Isabelle
  imports Complex_Main "HOL-Library.AList" "HOL-Library.Multiset"
    "HOL-Library.Code_Target_Numeral"
begin

section \<open>Sales cost computation: a model of the program\<close>

text \<open>
  The program (\<^verbatim>\<open>compute_sales.py\<close>) loads two JSON files into pandas
  DataFrames, builds a price dictionary from the catalogue, prices every sale, splits the
  sales into priced rows and error rows and formats a report. The functions below follow
  the source one by one and keep its names.

  The pandas operations are modelled as pandas 2.x performs them without copy-on-write
  (so that the in-place \<open>fillna\<close> of line 52 reaches the frame, as the program
  expects).

  Integers are modelled as they are: \<open>PInt\<close> is a Python integer, without bound; the
  cells of an int64 column are the integers of the signed 64-bit range, the sum of such a
  column wraps around, and an integer is converted to float64 before it is printed or
  meets a float. How pandas stores a column of integers beyond the 64-bit range (uint64
  or object) is not modelled: the dtype of a column of integers is int64 here, and the
  properties that depend on it are stated for quantities and prices of the 64-bit range.
  The column names of a frame are taken to be distinct, as they are in a frame read from
  JSON.

  Floats are idealised: \<open>PFloat r\<close> is a finite float standing for the real number
  \<open>r\<close> and \<open>PNaN\<close> is the float NaN. A product or a sum of floats is exact in the
  model, where float64 rounds; the infinities and the negative zero are not represented.
  No property below states the value of a product or of a sum of floats, apart from a
  product with zero (a zero of either sign) and the products of the examples, whose
  factors are small whole numbers: these are exact in float64 too.
\<close>

subsection \<open>Scalar values and exceptions\<close>

datatype pyval = PInt int | PFloat real | PNaN | PStr string | PNone

text \<open>
  An exception is its class with a text. For an exception that reading or writing a
  file raises the text is \<open>str(error)\<close>, which the diagnostics print; for one that an
  operation of the model raises it is a short description (the column name for a
  \<open>KeyError\<close>), not the interpreter's wording. \<open>OSError\<close> stands for the operating
  system errors other than \<open>FileNotFoundError\<close> (a permission error, for instance),
  and \<open>JSONDecodeError\<close> is a subclass of \<open>ValueError\<close> in Python.
\<close>

datatype pyerr =
    FileNotFoundError string
  | JSONDecodeError string
  | ValueError string
  | OSError string
  | KeyError string
  | TypeError string
  | OverflowError string
  | SystemExit int

fun str_of_error :: "pyerr \<Rightarrow> string" where
  "str_of_error (FileNotFoundError m) = m"
| "str_of_error (JSONDecodeError m) = m"
| "str_of_error (ValueError m) = m"
| "str_of_error (OSError m) = m"
| "str_of_error (KeyError m) = m"
| "str_of_error (TypeError m) = m"
| "str_of_error (OverflowError m) = m"
| "str_of_error (SystemExit n) = []"

fun is_int :: "pyval \<Rightarrow> bool" where
  "is_int (PInt _) = True"
| "is_int _ = False"

fun is_float :: "pyval \<Rightarrow> bool" where
  "is_float (PFloat _) = True"
| "is_float PNaN = True"
| "is_float _ = False"

fun is_str :: "pyval \<Rightarrow> bool" where
  "is_str (PStr _) = True"
| "is_str _ = False"

fun is_none :: "pyval \<Rightarrow> bool" where
  "is_none PNone = True"
| "is_none _ = False"

text \<open>\<open>pandas.isna\<close> on a scalar: NaN and \<open>None\<close> are missing values.\<close>

fun isna :: "pyval \<Rightarrow> bool" where
  "isna PNaN = True"
| "isna PNone = True"
| "isna _ = False"

text \<open>The conversion to float64 that a numeric column applies to its cells.\<close>

fun to_float :: "pyval \<Rightarrow> pyval" where
  "to_float (PInt i) = PFloat (of_int i)"
| "to_float PNone = PNaN"
| "to_float v = v"

text \<open>
  Python's \<open>*\<close> and \<open>+\<close> on these values. A string times an integer is the string
  repeated (empty for a count below one); a string times a float, and anything with
  \<open>None\<close>, is a \<open>TypeError\<close>. The sum and the product of two integers are
  Python's, exact; those of floats are idealised as said above. An integer that meets a
  float is converted to a float first, which raises \<open>OverflowError\<close> when the integer
  would round to \<open>2 ^ 1024\<close> or beyond.
\<close>

definition float_overflow :: "int \<Rightarrow> bool" where
  "float_overflow i \<longleftrightarrow> 2 ^ 1024 - 2 ^ 970 \<le> \<bar>i\<bar>"

definition too_large :: pyerr where
  "too_large = OverflowError ''int too large to convert to float''"

fun py_mul :: "pyval \<Rightarrow> pyval \<Rightarrow> pyerr + pyval" where
  "py_mul (PInt a) (PInt b) = Inr (PInt (a * b))"
| "py_mul (PInt a) (PFloat b) =
     (if float_overflow a then Inl too_large else Inr (PFloat (of_int a * b)))"
| "py_mul (PFloat a) (PInt b) =
     (if float_overflow b then Inl too_large else Inr (PFloat (a * of_int b)))"
| "py_mul (PFloat a) (PFloat b) = Inr (PFloat (a * b))"
| "py_mul PNaN (PInt b) = (if float_overflow b then Inl too_large else Inr PNaN)"
| "py_mul PNaN (PFloat b) = Inr PNaN"
| "py_mul PNaN PNaN = Inr PNaN"
| "py_mul (PInt a) PNaN = (if float_overflow a then Inl too_large else Inr PNaN)"
| "py_mul (PFloat a) PNaN = Inr PNaN"
| "py_mul (PStr s) (PInt n) = Inr (PStr (concat (replicate (nat n) s)))"
| "py_mul (PInt n) (PStr s) = Inr (PStr (concat (replicate (nat n) s)))"
| "py_mul (PStr s) (PFloat b) = Inl (TypeError ''multiply sequence by float'')"
| "py_mul (PStr s) PNaN = Inl (TypeError ''multiply sequence by float'')"
| "py_mul (PFloat a) (PStr s) = Inl (TypeError ''multiply sequence by float'')"
| "py_mul PNaN (PStr s) = Inl (TypeError ''multiply sequence by float'')"
| "py_mul (PStr s) (PStr t) = Inl (TypeError ''multiply sequence by str'')"
| "py_mul _ _ = Inl (TypeError ''unsupported operand types for *'')"

fun py_add :: "pyval \<Rightarrow> pyval \<Rightarrow> pyerr + pyval" where
  "py_add (PInt a) (PInt b) = Inr (PInt (a + b))"
| "py_add (PInt a) (PFloat b) =
     (if float_overflow a then Inl too_large else Inr (PFloat (of_int a + b)))"
| "py_add (PFloat a) (PInt b) =
     (if float_overflow b then Inl too_large else Inr (PFloat (a + of_int b)))"
| "py_add (PFloat a) (PFloat b) = Inr (PFloat (a + b))"
| "py_add PNaN (PInt b) = (if float_overflow b then Inl too_large else Inr PNaN)"
| "py_add PNaN (PFloat b) = Inr PNaN"
| "py_add PNaN PNaN = Inr PNaN"
| "py_add (PInt a) PNaN = (if float_overflow a then Inl too_large else Inr PNaN)"
| "py_add (PFloat a) PNaN = Inr PNaN"
| "py_add (PStr s) (PStr t) = Inr (PStr (s @ t))"
| "py_add _ _ = Inl (TypeError ''unsupported operand types for +'')"

subsection \<open>Fixed-point formatting\<close>

text \<open>
  The format specification \<open>.2f\<close> prints a float with two digits after the point,
  rounding its exact value to the nearest hundredth, ties to the even digit, and keeps
  the sign of a negative number. An integer is converted to float64 first: to itself when
  it has at most 53 bits, otherwise to the nearest multiple of the power of two that
  leaves 53 bits, ties to even; an integer that would round to \<open>2 ^ 1024\<close> or beyond
  raises \<open>OverflowError\<close>. A string does not accept the format code
  (\<open>ValueError\<close>), \<open>None\<close> does not accept any (\<open>TypeError\<close>).
\<close>

definition digit :: "nat \<Rightarrow> char" where
  "digit d = ''0123456789'' ! (d mod 10)"

fun decimal :: "nat \<Rightarrow> string" where
  "decimal n = (if n < 10 then [digit n] else decimal (n div 10) @ [digit (n mod 10)])"

declare decimal.simps [simp del]

definition round_half_even :: "real \<Rightarrow> int" where
  "round_half_even x =
     (let f = \<lfloor>x\<rfloor>; d = x - of_int f
      in if d < 1 / 2 then f
         else if 1 / 2 < d then f + 1
         else if even f then f else f + 1)"

definition format_2f :: "real \<Rightarrow> string" where
  "format_2f x =
     (let c = nat (round_half_even (\<bar>x\<bar> * 100))
      in (if x < 0 then ''-'' else []) @ decimal (c div 100) @ ''.''
           @ [digit (c mod 100 div 10), digit (c mod 10)])"

fun bit_length :: "nat \<Rightarrow> nat" where
  "bit_length n = (if n = 0 then 0 else Suc (bit_length (n div 2)))"

declare bit_length.simps [simp del]

definition nearest_float64 :: "int \<Rightarrow> real" where
  "nearest_float64 i =
     (let m = nat \<bar>i\<bar>; k = bit_length m;
          r = (if k \<le> 53 then int m
               else round_half_even (of_int (int m) / 2 ^ (k - 53)) * 2 ^ (k - 53))
      in of_int (if i < 0 then - r else r))"

fun py_format_2f :: "pyval \<Rightarrow> pyerr + string" where
  "py_format_2f (PInt i) =
     (if float_overflow i then Inl too_large else Inr (format_2f (nearest_float64 i)))"
| "py_format_2f (PFloat r) = Inr (format_2f r)"
| "py_format_2f PNaN = Inr ''nan''"
| "py_format_2f (PStr s) = Inl (ValueError ''format code f for str'')"
| "py_format_2f PNone = Inl (TypeError ''format string passed to NoneType'')"

subsection \<open>Frames, columns and dictionaries\<close>

text \<open>
  A row is its index label with its cells by column name; a cell that a row does not
  hold is NaN, as in a frame built from JSON objects with different keys. A frame is its
  column names with its rows. \<open>DataFrame\<close> is the value of \<open>pd.DataFrame()\<close>: no
  column and no row.
\<close>

type_synonym row = "nat \<times> (string \<times> pyval) list"

record frame =
  columns :: "string list"
  rows :: "row list"

definition DataFrame :: frame where
  "DataFrame = \<lparr>columns = [], rows = []\<rparr>"

definition cell :: "(string \<times> pyval) list \<Rightarrow> string \<Rightarrow> pyval" where
  "cell r c = (case map_of r c of Some v \<Rightarrow> v | None \<Rightarrow> PNaN)"

definition column_values :: "frame \<Rightarrow> string \<Rightarrow> pyval list" where
  "column_values df c = map (\<lambda>(i, r). cell r c) (rows df)"

definition labels :: "frame \<Rightarrow> nat list" where
  "labels df = map fst (rows df)"

text \<open>
  \<open>df[c] = values\<close> and \<open>df.assign(c=values)\<close>: the column is replaced where it
  stands, or added as the last one.
\<close>

definition with_column :: "frame \<Rightarrow> string \<Rightarrow> pyval list \<Rightarrow> frame" where
  "with_column df c vs =
     \<lparr>columns = (if c \<in> set (columns df) then columns df else columns df @ [c]),
      rows = map (\<lambda>((i, r), v). (i, AList.update c v r)) (zip (rows df) vs)\<rparr>"

definition select_rows :: "(row \<Rightarrow> bool) \<Rightarrow> frame \<Rightarrow> frame" where
  "select_rows p df = \<lparr>columns = columns df, rows = filter p (rows df)\<rparr>"

definition head :: "nat \<Rightarrow> frame \<Rightarrow> frame" where
  "head n df = \<lparr>columns = columns df, rows = take n (rows df)\<rparr>"

text \<open>
  A column has the dtype pandas infers for its values: int64 for integers only, float64
  for floats and NaN only, object otherwise.
\<close>

datatype dtype = Int64 | Float64 | Object

definition dtype_of :: "pyval list \<Rightarrow> dtype" where
  "dtype_of vs =
     (if list_all is_int vs then Int64
      else if list_all is_float vs then Float64
      else Object)"

text \<open>
  The \<open>Series\<close> constructor on a list of Python objects: the list is kept when it holds
  a string (object dtype), only integers (int64) or only \<open>None\<close> (object); otherwise
  it becomes a float64 column, where an integer is converted and \<open>None\<close> is NaN.
\<close>

definition series_infer :: "pyval list \<Rightarrow> pyval list" where
  "series_infer vs =
     (if list_ex is_str vs \<or> list_all is_int vs \<or> list_all is_none vs then vs
      else map to_float vs)"

text \<open>
  A Python dictionary keeps its keys in insertion order, and storing under a key that is
  present replaces the value: an association list under \<open>AList.update\<close>. Keys are
  compared as values of \<^typ>\<open>pyval\<close>, which is Python's comparison for the text
  titles of the catalogue format. It is finer than Python's for numbers (the integer
  \<open>1\<close> and the float \<open>1.0\<close> are one key there), so that the properties of
  looked-up prices are stated for text keys.
\<close>

type_synonym dict = "(pyval \<times> pyval) list"

definition to_dict :: "(pyval \<times> pyval) list \<Rightarrow> dict" where
  "to_dict items = fold (\<lambda>(k, v) d. AList.update k v d) items []"

subsection \<open>The loader\<close>

text \<open>
  \<open>pd.read_json\<close> is the program's only contact with the input files. Its outcome on a
  path is a parameter of the model: a frame, or the exception it raises. The
  \<open>except\<close> clause of lines 28 to 30 catches \<open>FileNotFoundError\<close>, \<open>ValueError\<close>
  and \<open>JSONDecodeError\<close>, prints one line and returns \<open>pd.DataFrame()\<close>; any other
  exception leaves the function.
\<close>

datatype read_result = Parsed frame | Raised pyerr

fun caught_on_load :: "pyerr \<Rightarrow> bool" where
  "caught_on_load (FileNotFoundError _) = True"
| "caught_on_load (ValueError _) = True"
| "caught_on_load (JSONDecodeError _) = True"
| "caught_on_load _ = False"

text \<open>What the program does to the outside, in order.\<close>

datatype event = Stdout string | StdoutFrame string frame | FileWritten string string

definition load_json_to_dataframe ::
  "(string \<Rightarrow> read_result) \<Rightarrow> string \<Rightarrow> event list \<times> (pyerr + frame)" where
  "load_json_to_dataframe read_json file_path =
     (case read_json file_path of
        Parsed df \<Rightarrow> ([], Inr df)
      | Raised error \<Rightarrow>
          if caught_on_load error
          then ([Stdout (''Error al cargar el archivo '' @ file_path @ '': '' @ str_of_error error)],
                Inr DataFrame)
          else ([], Inl error))"

subsection \<open>The price dictionary\<close>

text \<open>
  \<open>df_products.set_index("title")["price"].to_dict()\<close>: \<open>set_index\<close> raises
  \<open>KeyError\<close> when the frame has no column \<open>title\<close>, the selection of \<open>price\<close>
  when it has no such column; \<open>to_dict\<close> stores the prices under their titles in row
  order.
\<close>

definition map_product_prices :: "frame \<Rightarrow> pyerr + dict" where
  "map_product_prices df_products =
     (if ''title'' \<notin> set (columns df_products) then Inl (KeyError ''title'')
      else if ''price'' \<notin> set (columns df_products) then Inl (KeyError ''price'')
      else Inr (to_dict (map (\<lambda>(i, r). (cell r ''title'', cell r ''price''))
                            (rows df_products))))"

subsection \<open>Pricing the sales\<close>

text \<open>
  \<open>Series.map\<close> with a dictionary turns the dictionary into a \<open>Series\<close> (its values
  go through the constructor's inference) and looks every key up in it; a key that is
  not there gives NaN, and an int64 result that has to hold a NaN is converted to
  float64.
\<close>

definition series_map :: "pyval list \<Rightarrow> dict \<Rightarrow> pyval list" where
  "series_map keys d =
     (let mapper = zip (map fst d) (series_infer (map snd d));
          upcast = (dtype_of (map snd mapper) = Int64
                    \<and> list_ex (\<lambda>k. map_of mapper k = None) keys)
      in map (\<lambda>k. case map_of mapper k of
                     None \<Rightarrow> PNaN
                   | Some v \<Rightarrow> if upcast then to_float v else v) keys)"

definition not_found :: string where
  "not_found = ''Producto no encontrado''"

definition fillna :: "string \<Rightarrow> pyval list \<Rightarrow> pyval list" where
  "fillna s vs = map (\<lambda>v. if isna v then PStr s else v) vs"

text \<open>
  \<open>DataFrame.apply\<close> with \<open>axis=1\<close> cuts the rows out of \<open>DataFrame.values\<close>,
  one array of the frame's common dtype. When every column is int64 the lambda receives
  \<open>numpy.int64\<close> scalars, which are not instances of \<open>int\<close> or \<open>float\<close>; when
  the columns are numeric with a float64 one among them it receives \<open>numpy.float64\<close>
  scalars, which are instances of \<open>float\<close>; when a column has object dtype it receives
  the Python objects.
\<close>

datatype view = NpInt64 | NpFloat64 | PyObject

definition frame_view :: "frame \<Rightarrow> view" where
  "frame_view df =
     (let ds = map (\<lambda>c. dtype_of (column_values df c)) (columns df)
      in if list_all (\<lambda>d. d = Int64) ds then NpInt64
         else if list_all (\<lambda>d. d \<noteq> Object) ds then NpFloat64
         else PyObject)"

fun view_cell :: "view \<Rightarrow> pyval \<Rightarrow> pyval" where
  "view_cell NpFloat64 v = to_float v"
| "view_cell _ v = v"

text \<open>\<open>isinstance(x, (int, float))\<close> on a value of the row.\<close>

fun isinstance_int_float :: "view \<Rightarrow> pyval \<Rightarrow> bool" where
  "isinstance_int_float NpInt64 v = False"
| "isinstance_int_float _ v = (is_int v \<or> is_float v)"

text \<open>
  The lambda of lines 56 to 58. The condition is evaluated first, so that
  \<open>row["Quantity"]\<close> is read (and may raise \<open>KeyError\<close>) only for a numeric unit
  price.
\<close>

definition total_cost :: "view \<Rightarrow> string list \<Rightarrow> row \<Rightarrow> pyerr + pyval" where
  "total_cost vw cols row =
     (let unit_price = view_cell vw (cell (snd row) ''Unit_Price'')
      in if isinstance_int_float vw unit_price
         then (if ''Quantity'' \<in> set cols
               then py_mul (view_cell vw (cell (snd row) ''Quantity'')) unit_price
               else Inl (KeyError ''Quantity''))
         else Inr PNone)"

fun apply_rows :: "(row \<Rightarrow> pyerr + pyval) \<Rightarrow> row list \<Rightarrow> pyerr + pyval list" where
  "apply_rows f [] = Inr []"
| "apply_rows f (r # rs) =
     (case f r of
        Inl e \<Rightarrow> Inl e
      | Inr v \<Rightarrow> (case apply_rows f rs of Inl e \<Rightarrow> Inl e | Inr vs \<Rightarrow> Inr (v # vs)))"

text \<open>
  On a frame without rows \<open>apply\<close> calls the lambda once on a row of NaN to see what
  it returns. With a \<open>Quantity\<close> column the call gives NaN and the result is an empty
  column; without one the \<open>KeyError\<close> is swallowed and \<open>apply\<close> returns a copy of
  the frame, which \<open>assign\<close> refuses as a column (\<open>ValueError\<close>). On a frame with
  rows the results of the lambda become a \<open>Series\<close>.
\<close>

definition apply_total_cost :: "frame \<Rightarrow> pyerr + pyval list" where
  "apply_total_cost df =
     (if rows df = []
      then (if ''Quantity'' \<in> set (columns df) then Inr []
            else Inl (ValueError ''Cannot set a DataFrame with multiple columns''))
      else (case apply_rows (total_cost (frame_view df) (columns df)) (rows df) of
              Inl e \<Rightarrow> Inl e
            | Inr vs \<Rightarrow> Inr (series_infer vs)))"

text \<open>
  \<open>process_sales_data\<close>. Lines 51 and 52 write the column \<open>Unit_Price\<close> into the
  frame the caller passed; \<open>assign\<close> on line 54 makes a new frame, to which the name
  \<open>df_sales\<close> is bound from there on. The first component of the result is the
  caller's frame after the call, the second what the call returns or raises.
\<close>

definition process_sales_data :: "frame \<Rightarrow> dict \<Rightarrow> frame \<times> (pyerr + frame \<times> frame)" where
  "process_sales_data df_sales product_prices =
     (if ''Product'' \<notin> set (columns df_sales) then (df_sales, Inl (KeyError ''Product''))
      else
        let df1 = with_column df_sales ''Unit_Price''
                    (fillna not_found
                       (series_map (column_values df_sales ''Product'') product_prices))
        in case apply_total_cost df1 of
             Inl e \<Rightarrow> (df1, Inl e)
           | Inr tc \<Rightarrow>
               let df2 = with_column df1 ''Total_Cost'' tc;
                   errors = select_rows (\<lambda>row. isna (cell (snd row) ''Total_Cost'')) df2;
                   valid = select_rows (\<lambda>row. \<not> isna (cell (snd row) ''Total_Cost'')) df2
               in (df1, Inr (valid, errors)))"

subsection \<open>The report\<close>

text \<open>
  \<open>Series.sum\<close>. The sum of no cell is zero. A column of integers of the signed
  64-bit range is an int64 column, and its sum is taken in 64-bit integers: it wraps
  around. On any other column missing values are replaced by zero and the cells are added
  from the left with Python's \<open>+\<close>: integers beyond the 64-bit range are Python
  integers and add exactly, texts are concatenated, a text and a number do not add
  (\<open>TypeError\<close>), and floats add as idealised above.
\<close>

fun int64_cell :: "pyval \<Rightarrow> bool" where
  "int64_cell (PInt i) = (- (2 ^ 63) \<le> i \<and> i < 2 ^ 63)"
| "int64_cell _ = False"

fun int_of :: "pyval \<Rightarrow> int" where
  "int_of (PInt i) = i"
| "int_of _ = 0"

definition wrap64 :: "int \<Rightarrow> int" where
  "wrap64 i = (i + 2 ^ 63) mod 2 ^ 64 - 2 ^ 63"

fun sum_from :: "pyval \<Rightarrow> pyval list \<Rightarrow> pyerr + pyval" where
  "sum_from acc [] = Inr acc"
| "sum_from acc (v # vs) =
     (case py_add acc v of Inl e \<Rightarrow> Inl e | Inr a \<Rightarrow> sum_from a vs)"

definition series_sum :: "pyval list \<Rightarrow> pyerr + pyval" where
  "series_sum vs =
     (if vs \<noteq> [] \<and> list_all int64_cell vs
      then Inr (PInt (wrap64 (sum_list (map int_of vs))))
      else (case map (\<lambda>v. if isna v then PInt 0 else v) vs of
              [] \<Rightarrow> Inr (PInt 0)
            | v # rest \<Rightarrow> sum_from v rest))"

definition newline :: string where
  "newline = [CHR 0x0A]"

definition indent :: string where
  "indent = replicate 16 CHR '' ''"

text \<open>The text of lines 79 to 84; the accented letter is its two bytes in UTF-8.\<close>

definition report_text :: "string \<Rightarrow> string \<Rightarrow> string" where
  "report_text total_str elapsed_str =
     newline
     @ indent @ ''Resultados de Ventas:'' @ newline
     @ indent @ ''---------------------'' @ newline
     @ indent @ ''Total de Costos de Ventas: $'' @ total_str @ newline
     @ indent @ ''Tiempo de ejecuci'' @ [CHR 0xC3, CHR 0xB3] @ ''n: '' @ elapsed_str
         @ '' segundos'' @ newline
     @ indent"

definition generate_sales_report :: "frame \<Rightarrow> real \<Rightarrow> pyerr + string" where
  "generate_sales_report df_sales elapsed_time =
     (if ''Total_Cost'' \<notin> set (columns df_sales) then Inl (KeyError ''Total_Cost'')
      else case series_sum (column_values df_sales ''Total_Cost'') of
             Inl e \<Rightarrow> Inl e
           | Inr total_sales_cost \<Rightarrow>
               (case py_format_2f total_sales_cost of
                  Inl e \<Rightarrow> Inl e
                | Inr total_str \<Rightarrow> Inr (report_text total_str (format_2f elapsed_time))))"

subsection \<open>Writing the report and the main flow\<close>

text \<open>
  The outcome of opening and writing the output file is a parameter: \<open>None\<close> when the
  file is written, the exception otherwise. \<open>IOError\<close> is Python's \<open>OSError\<close>, whose
  subclass \<open>FileNotFoundError\<close> is.
\<close>

fun caught_on_save :: "pyerr \<Rightarrow> bool" where
  "caught_on_save (FileNotFoundError _) = True"
| "caught_on_save (OSError _) = True"
| "caught_on_save _ = False"

definition save_report_to_file ::
  "(string \<Rightarrow> pyerr option) \<Rightarrow> string \<Rightarrow> string \<Rightarrow> event list \<times> (pyerr + unit)" where
  "save_report_to_file write report file_path =
     (case write file_path of
        None \<Rightarrow> ([FileWritten file_path report], Inr ())
      | Some error \<Rightarrow>
          if caught_on_save error
          then ([Stdout (''Error al guardar el archivo '' @ file_path @ '': '' @ str_of_error error)],
                Inr ())
          else ([], Inl error))"

text \<open>
  \<open>main\<close> with \<open>sys.argv\<close>, the reader, the writer and the measured time as
  arguments. It gives the events up to the point it returns or an exception leaves it.
\<close>

definition main ::
  "(string \<Rightarrow> read_result) \<Rightarrow> (string \<Rightarrow> pyerr option) \<Rightarrow> real \<Rightarrow> string list
     \<Rightarrow> event list \<times> (pyerr + string)" where
  "main read_json write elapsed_time argv =
     (if length argv \<noteq> 3
      then ([Stdout (newline @ ''Argumentos faltantes o inv'' @ [CHR 0xC3, CHR 0xA1] @ ''lidos'')],
            Inl (SystemExit 1))
      else
        (let product_list_path = argv ! 1;
             sales_record_path = argv ! 2;
             loaded_products = load_json_to_dataframe read_json product_list_path;
             ev1 = fst loaded_products
         in (case snd loaded_products of
               Inl e \<Rightarrow> (ev1, Inl e)
             | Inr df_products \<Rightarrow>
                 (let loaded_sales = load_json_to_dataframe read_json sales_record_path;
                      ev2 = fst loaded_sales
                  in (case snd loaded_sales of
                        Inl e \<Rightarrow> (ev1 @ ev2, Inl e)
                      | Inr df_sales0 \<Rightarrow>
                          (case map_product_prices df_products of
                             Inl e \<Rightarrow> (ev1 @ ev2, Inl e)
                           | Inr product_prices \<Rightarrow>
                               (case snd (process_sales_data df_sales0 product_prices) of
                                  Inl e \<Rightarrow> (ev1 @ ev2, Inl e)
                                | Inr (df_sales, errors) \<Rightarrow>
                                    (case generate_sales_report df_sales elapsed_time of
                                       Inl e \<Rightarrow> (ev1 @ ev2, Inl e)
                                     | Inr report \<Rightarrow>
                                         (let output_file_path = ''SalesResults.txt'';
                                              saved = save_report_to_file write report
                                                        output_file_path;
                                              ev3 = fst saved
                                          in (case snd saved of
                                                Inl e \<Rightarrow> (ev1 @ ev2 @ ev3, Inl e)
                                              | Inr u \<Rightarrow>
                                                  (ev1 @ ev2 @ ev3
                                                     @ [Stdout report,
                                                        StdoutFrame newline (head 10 df_sales)]
                                                     @ (if rows errors \<noteq> []
                                                        then [StdoutFrame
                                                                (newline @ ''Errores detectados:''
                                                                   @ newline)
                                                                (head 5 errors)]
                                                        else []),
                                                   Inr output_file_path)))))))))))"

subsection \<open>Cells of numeric columns\<close>

text \<open>
  Used to state the properties: the cells that a numeric column of a frame read by
  \<open>pd.read_json\<close> holds are integers of the signed 64-bit range, floats and NaN.
\<close>

fun numeric_cell :: "pyval \<Rightarrow> bool" where
  "numeric_cell (PInt i) = (- (2 ^ 63) \<le> i \<and> i < 2 ^ 63)"
| "numeric_cell (PFloat _) = True"
| "numeric_cell PNaN = True"
| "numeric_cell _ = False"

text \<open>
  A price that the pricing can multiply by any such quantity: not an integer beyond the
  signed 64-bit range. The integer prices that \<open>read_json\<close> loads are of that range.
\<close>

fun price_in_range :: "pyval \<Rightarrow> bool" where
  "price_in_range (PInt i) = (- (2 ^ 63) \<le> i \<and> i < 2 ^ 63)"
| "price_in_range _ = True"

subsection \<open>Inputs used in the examples\<close>

text \<open>Both paths name files that do not exist.\<close>

definition missing_files :: "string \<Rightarrow> read_result" where
  "missing_files path = Raised (FileNotFoundError (''File '' @ path @ '' does not exist''))"


definition prices_example :: dict where
  "prices_example = [(PStr ''A'', PInt 10), (PStr ''B'', PInt 5)]"

text \<open>
  Five sales as \<open>pd.read_json\<close> delivers them: the last object has no \<open>Quantity\<close>,
  which makes the column float64 with a NaN. Product \<open>C\<close> is not in the catalogue.
\<close>

definition sales_example :: frame where
  "sales_example =
     \<lparr>columns = [''Product'', ''Quantity''],
      rows = [(0, [(''Product'', PStr ''A''), (''Quantity'', PFloat 2)]),
              (1, [(''Product'', PStr ''C''), (''Quantity'', PFloat 1)]),
              (2, [(''Product'', PStr ''C''), (''Quantity'', PFloat 0)]),
              (3, [(''Product'', PStr ''B''), (''Quantity'', PFloat 0)]),
              (4, [(''Product'', PStr ''A''), (''Quantity'', PNaN)])]\<rparr>"

text \<open>The same sales once \<open>process_sales_data\<close> has run.\<close>

definition sales_example_after :: frame where
  "sales_example_after =
     \<lparr>columns = [''Product'', ''Quantity'', ''Unit_Price''],
      rows = [(0, [(''Product'', PStr ''A''), (''Quantity'', PFloat 2),
                   (''Unit_Price'', PFloat 10)]),
              (1, [(''Product'', PStr ''C''), (''Quantity'', PFloat 1),
                   (''Unit_Price'', PStr ''Producto no encontrado'')]),
              (2, [(''Product'', PStr ''C''), (''Quantity'', PFloat 0),
                   (''Unit_Price'', PStr ''Producto no encontrado'')]),
              (3, [(''Product'', PStr ''B''), (''Quantity'', PFloat 0),
                   (''Unit_Price'', PFloat 5)]),
              (4, [(''Product'', PStr ''A''), (''Quantity'', PNaN),
                   (''Unit_Price'', PFloat 10)])]\<rparr>"

definition sales_example_valid :: frame where
  "sales_example_valid =
     \<lparr>columns = [''Product'', ''Quantity'', ''Unit_Price'', ''Total_Cost''],
      rows = [(0, [(''Product'', PStr ''A''), (''Quantity'', PFloat 2),
                   (''Unit_Price'', PFloat 10), (''Total_Cost'', PFloat 20)]),
              (3, [(''Product'', PStr ''B''), (''Quantity'', PFloat 0),
                   (''Unit_Price'', PFloat 5), (''Total_Cost'', PFloat 0)])]\<rparr>"

definition sales_example_errors :: frame where
  "sales_example_errors =
     \<lparr>columns = [''Product'', ''Quantity'', ''Unit_Price'', ''Total_Cost''],
      rows = [(1, [(''Product'', PStr ''C''), (''Quantity'', PFloat 1),
                   (''Unit_Price'', PStr ''Producto no encontrado''), (''Total_Cost'', PNaN)]),
              (2, [(''Product'', PStr ''C''), (''Quantity'', PFloat 0),
                   (''Unit_Price'', PStr ''Producto no encontrado''), (''Total_Cost'', PNaN)]),
              (4, [(''Product'', PStr ''A''), (''Quantity'', PNaN),
                   (''Unit_Price'', PFloat 10), (''Total_Cost'', PNaN)])]\<rparr>"

text \<open>One sale whose \<open>Quantity\<close> is the text \<open>x\<close>, and what comes back for it.\<close>

definition text_quantity_sales :: frame where
  "text_quantity_sales =
     \<lparr>columns = [''Product'', ''Quantity''],
      rows = [(0, [(''Product'', PStr ''A''), (''Quantity'', PStr ''x'')])]\<rparr>"

definition text_quantity_valid :: frame where
  "text_quantity_valid =
     \<lparr>columns = [''Product'', ''Quantity'', ''Unit_Price'', ''Total_Cost''],
      rows = [(0, [(''Product'', PStr ''A''), (''Quantity'', PStr ''x''),
                   (''Unit_Price'', PInt 3), (''Total_Cost'', PStr ''xxx'')])]\<rparr>"

definition text_quantity_after :: frame where
  "text_quantity_after =
     \<lparr>columns = [''Product'', ''Quantity'', ''Unit_Price''],
      rows = [(0, [(''Product'', PStr ''A''), (''Quantity'', PStr ''x''),
                   (''Unit_Price'', PInt 3)])]\<rparr>"

definition no_rows :: frame where
  "no_rows = \<lparr>columns = [''Product'', ''Quantity'', ''Unit_Price'', ''Total_Cost''], rows = []\<rparr>"

text \<open>
  Dictionaries for product \<open>A\<close>: an integer price, a float price, a price that is a
  text, and a dictionary that does not hold \<open>A\<close>.
\<close>

definition int_price :: dict where
  "int_price = [(PStr ''A'', PInt 3)]"

definition float_price :: dict where
  "float_price = [(PStr ''A'', PFloat (5 / 2))]"

definition text_price :: dict where
  "text_price = [(PStr ''A'', PStr ''N/A'')]"

definition other_price :: dict where
  "other_price = [(PStr ''B'', PInt 5)]"

text \<open>One sale of nothing.\<close>

definition zero_quantity_sales :: frame where
  "zero_quantity_sales =
     \<lparr>columns = [''Product'', ''Quantity''],
      rows = [(0, [(''Product'', PStr ''A''), (''Quantity'', PInt 0)])]\<rparr>"

text \<open>
  Tables on which the processor raises: a sale of an unknown product, a sale of quantity
  zero and a sale without quantity, each next to a sale whose \<open>Quantity\<close> is a text; a
  table in which no sale has a \<open>Quantity\<close>; and a table in which a \<open>Quantity\<close> is
  \<open>None\<close>, as a null is in a column that holds a text.
\<close>

definition unknown_and_text_sales :: frame where
  "unknown_and_text_sales =
     \<lparr>columns = [''Product'', ''Quantity''],
      rows = [(0, [(''Product'', PStr ''C''), (''Quantity'', PInt 1)]),
              (1, [(''Product'', PStr ''A''), (''Quantity'', PStr ''x'')])]\<rparr>"

definition zero_and_text_sales :: frame where
  "zero_and_text_sales =
     \<lparr>columns = [''Product'', ''Quantity''],
      rows = [(0, [(''Product'', PStr ''A''), (''Quantity'', PInt 0)]),
              (1, [(''Product'', PStr ''A''), (''Quantity'', PStr ''x'')])]\<rparr>"

definition nan_and_text_sales :: frame where
  "nan_and_text_sales =
     \<lparr>columns = [''Product'', ''Quantity''],
      rows = [(0, [(''Product'', PStr ''A''), (''Quantity'', PNaN)]),
              (1, [(''Product'', PStr ''A''), (''Quantity'', PStr ''x'')])]\<rparr>"

definition no_quantity_sales :: frame where
  "no_quantity_sales =
     \<lparr>columns = [''Product''],
      rows = [(0, [(''Product'', PStr ''C'')]),
              (1, [(''Product'', PStr ''A'')])]\<rparr>"

definition none_quantity_sales :: frame where
  "none_quantity_sales =
     \<lparr>columns = [''Product'', ''Quantity''],
      rows = [(0, [(''Product'', PStr ''A''), (''Quantity'', PNone)]),
              (1, [(''Product'', PStr ''C''), (''Quantity'', PStr ''x'')])]\<rparr>"

text \<open>
  A table in which every column is int64: the product is the number \<open>1\<close>, found in the
  dictionary.
\<close>

definition numeric_product_sales :: frame where
  "numeric_product_sales =
     \<lparr>columns = [''Product'', ''Quantity''],
      rows = [(0, [(''Product'', PInt 1), (''Quantity'', PInt 0)])]\<rparr>"

definition numeric_key_price :: dict where
  "numeric_key_price = [(PInt 1, PInt 10)]"







section \<open>Properties\<close>

subsection \<open>Loading\<close>

text \<open>
  C6. When \<open>pd.read_json\<close> fails on a path because the file is not found, because the
  text is not JSON or because the decoded structure is refused (a \<open>ValueError\<close>), the
  loader prints one diagnostic with the path and the error and returns the empty frame to
  its caller; it raises nothing.
\<close>

theorem load_failure_gives_empty_frame:
  assumes "read_json file_path = Raised error"
    and "error = FileNotFoundError m \<or> error = JSONDecodeError m \<or> error = ValueError m"
  shows "load_json_to_dataframe read_json file_path =
           ([Stdout (''Error al cargar el archivo '' @ file_path @ '': '' @ m)], Inr DataFrame)
         \<and> rows DataFrame = [] \<and> columns DataFrame = []"
  using assms by (auto simp: load_json_to_dataframe_def DataFrame_def)

theorem load_failure_gives_empty_frame_witness:
  "load_json_to_dataframe (\<lambda>p. Raised (JSONDecodeError ''Expected object or value''))
       ''sales.json'' =
     ([Stdout ''Error al cargar el archivo sales.json: Expected object or value''],
      Inr DataFrame)"
  using load_failure_gives_empty_frame
          [of "\<lambda>p. Raised (JSONDecodeError ''Expected object or value'')" "''sales.json''"
              "JSONDecodeError ''Expected object or value''" "''Expected object or value''"]
  by simp

text \<open>
  C1. The claim is that a run in which both files fail to load goes on with the empty
  data and reports a total of 0.00. The run below, with two missing files, prints the two
  diagnostics and then leaves \<open>main\<close> with the \<open>KeyError\<close> of \<open>set_index\<close>: the
  empty frame has no column \<open>title\<close>. No report is produced.
\<close>

theorem main_aborts_when_both_loads_fail:
  "main missing_files (\<lambda>p. None) (1 / 100)
       [''compute_sales.py'', ''catalogue.json'', ''sales.json''] =
     ([Stdout ''Error al cargar el archivo catalogue.json: File catalogue.json does not exist'',
       Stdout ''Error al cargar el archivo sales.json: File sales.json does not exist''],
      Inl (KeyError ''title''))"
  by (simp add: main_def load_json_to_dataframe_def missing_files_def map_product_prices_def
      DataFrame_def)

subsection \<open>Auxiliary facts\<close>

lemma isna_to_float [simp]: "isna (to_float v) = isna v"
  by (cases v) simp_all

lemma series_infer_length [simp]: "length (series_infer vs) = length vs"
  by (simp add: series_infer_def)

lemma series_infer_cases: "series_infer vs = vs \<or> series_infer vs = map to_float vs"
  by (simp add: series_infer_def)

lemma series_infer_nth:
  "n < length vs \<Longrightarrow> series_infer vs ! n = vs ! n \<or> series_infer vs ! n = to_float (vs ! n)"
  using series_infer_cases [of vs] by auto

lemma apply_rows_Inr:
  "apply_rows f rs = Inr vs \<Longrightarrow>
     length vs = length rs \<and> (\<forall>n<length rs. f (rs ! n) = Inr (vs ! n))"
proof (induction rs arbitrary: vs)
  case Nil
  then show ?case by simp
next
  case (Cons r rs)
  then obtain v ws where v: "f r = Inr v" and ws: "apply_rows f rs = Inr ws" and vs: "vs = v # ws"
    by (auto split: sum.splits)
  from Cons.IH [OF ws] v vs show ?case
    by (auto simp: nth_Cons split: nat.splits)
qed

lemma cell_update: "cell (AList.update c v r) c' = (if c' = c then v else cell r c')"
  by (simp add: cell_def update_conv')

lemma with_column_length:
  "length vs = length (rows df) \<Longrightarrow> length (rows (with_column df c vs)) = length (rows df)"
  by (simp add: with_column_def)

lemma with_column_nth:
  "length vs = length (rows df) \<Longrightarrow> n < length (rows df) \<Longrightarrow>
     rows (with_column df c vs) ! n = (fst (rows df ! n), AList.update c (vs ! n) (snd (rows df ! n)))"
  by (simp add: with_column_def split: prod.splits)

lemma with_column_labels:
  "length vs = length (rows df) \<Longrightarrow> labels (with_column df c vs) = labels df"
  by (auto simp: with_column_def labels_def intro!: nth_equalityI split: prod.splits)

lemma with_column_columns:
  "set (columns (with_column df c vs)) = insert c (set (columns df))"
  by (auto simp: with_column_def)

lemma series_map_length [simp]: "length (series_map keys d) = length keys"
  by (simp add: series_map_def Let_def)

lemma fillna_length [simp]: "length (fillna s vs) = length vs"
  by (simp add: fillna_def)

lemma column_values_length [simp]: "length (column_values df c) = length (rows df)"
  by (simp add: column_values_def)


lemma process_sales_data_Inr:
  assumes "process_sales_data df d = (df', Inr (valid, errors))"
  shows "''Product'' \<in> set (columns df)
       \<and> df' = with_column df ''Unit_Price''
                 (fillna not_found (series_map (column_values df ''Product'') d))
       \<and> (\<exists>tc. apply_total_cost df' = Inr tc
              \<and> valid = select_rows (\<lambda>row. \<not> isna (cell (snd row) ''Total_Cost''))
                          (with_column df' ''Total_Cost'' tc)
              \<and> errors = select_rows (\<lambda>row. isna (cell (snd row) ''Total_Cost''))
                          (with_column df' ''Total_Cost'' tc))"
  using assms
  by (auto simp: process_sales_data_def Let_def split: if_splits sum.splits)


lemma map_of_zip_map:
  "length ks = length vs \<Longrightarrow> map_of (zip ks (map f vs)) k = map_option f (map_of (zip ks vs) k)"
  by (induction ks vs rule: list_induct2) auto

lemma map_of_mapper:
  "map_of (zip (map fst d) (series_infer (map snd d))) k = map_of d k
   \<or> map_of (zip (map fst d) (series_infer (map snd d))) k = map_option to_float (map_of d k)"
proof -
  have "map_of (zip (map fst d) (map to_float (map snd d))) k
          = map_option to_float (map_of (zip (map fst d) (map snd d)) k)"
    by (rule map_of_zip_map) simp
  then show ?thesis
    using series_infer_cases [of "map snd d"] by (auto simp: zip_map_fst_snd)
qed

lemma to_float_idem [simp]: "to_float (to_float v) = to_float v"
  by (cases v) simp_all

lemma series_map_nth_missing:
  assumes "n < length keys" and "map_of d (keys ! n) = None"
  shows "series_map keys d ! n = PNaN"
proof -
  define mapper where "mapper = zip (map fst d) (series_infer (map snd d))"
  have "map_of mapper (keys ! n) = None"
    unfolding mapper_def using map_of_mapper [of d "keys ! n"] assms(2) by auto
  then have "(case map_of mapper (keys ! n) of
                None \<Rightarrow> PNaN
              | Some v \<Rightarrow> if dtype_of (map snd mapper) = Int64
                             \<and> list_ex (\<lambda>k. map_of mapper k = None) keys
                          then to_float v else v) = PNaN"
    by (simp only: option.case)
  with assms(1) show ?thesis
    unfolding series_map_def Let_def mapper_def by simp
qed

lemma series_map_nth_found:
  assumes "n < length keys" and "map_of d (keys ! n) = Some p"
  shows "series_map keys d ! n = p \<or> series_map keys d ! n = to_float p"
proof -
  have "map_of (zip (map fst d) (series_infer (map snd d))) (keys ! n) = Some p
      \<or> map_of (zip (map fst d) (series_infer (map snd d))) (keys ! n) = Some (to_float p)"
    using map_of_mapper [of d "keys ! n"] assms(2) by auto
  with assms(1) show ?thesis
    by (auto simp: series_map_def Let_def)
qed

lemma unit_price_missing:
  assumes "n < length keys" and "map_of d (keys ! n) = None"
  shows "fillna s (series_map keys d) ! n = PStr s"
  using assms series_map_nth_missing [OF assms] by (simp add: fillna_def)

lemma unit_price_found:
  assumes "n < length keys" and "map_of d (keys ! n) = Some p" and "\<not> isna p"
  shows "fillna s (series_map keys d) ! n = p \<or> fillna s (series_map keys d) ! n = to_float p"
  using assms series_map_nth_found [OF assms(1,2)] by (auto simp: fillna_def)

lemma column_values_nth:
  "n < length (rows df) \<Longrightarrow> rows df ! n = (i, r) \<Longrightarrow> column_values df c ! n = cell r c"
  by (simp add: column_values_def)

lemma processed_row:
  assumes ret: "process_sales_data df d = (df', Inr (valid, errors))"
    and n: "n < length (rows df)" and row: "rows df ! n = (i, r)"
  shows "\<exists>v w. total_cost (frame_view df') (columns df')
                 (i, AList.update ''Unit_Price''
                       (fillna not_found (series_map (column_values df ''Product'') d) ! n) r)
               = Inr v
             \<and> (w = v \<or> w = to_float v)
             \<and> (i, AList.update ''Total_Cost'' w
                     (AList.update ''Unit_Price''
                        (fillna not_found (series_map (column_values df ''Product'') d) ! n) r))
                 \<in> (if isna v then set (rows errors) - set (rows valid)
                    else set (rows valid) - set (rows errors))
             \<and> (distinct (labels df) \<longrightarrow>
                  i \<notin> set (labels (if isna v then valid else errors)))"
proof -
  let ?ups = "fillna not_found (series_map (column_values df ''Product'') d)"
  let ?r1 = "AList.update ''Unit_Price'' (?ups ! n) r"
  from process_sales_data_Inr [OF ret] obtain tc where
    df': "df' = with_column df ''Unit_Price'' ?ups"
    and tc: "apply_total_cost df' = Inr tc"
    and valid: "valid = select_rows (\<lambda>row. \<not> isna (cell (snd row) ''Total_Cost''))
                          (with_column df' ''Total_Cost'' tc)"
    and errors: "errors = select_rows (\<lambda>row. isna (cell (snd row) ''Total_Cost''))
                          (with_column df' ''Total_Cost'' tc)"
    by blast
  let ?rows2 = "rows (with_column df' ''Total_Cost'' tc)"
  have len1: "length (rows df') = length (rows df)"
    unfolding df' by (rule with_column_length) simp
  have row1: "rows df' ! n = (i, ?r1)"
    unfolding df' using with_column_nth [of ?ups df n "''Unit_Price''"] n row by simp
  from n len1 have ne: "rows df' \<noteq> []" by auto
  from tc ne obtain vs where
    vs: "apply_rows (total_cost (frame_view df') (columns df')) (rows df') = Inr vs"
    and tc_eq: "tc = series_infer vs"
    by (auto simp: apply_total_cost_def split: sum.splits)
  from apply_rows_Inr [OF vs] n len1 row1 have
    lenvs: "length vs = length (rows df')"
    and v: "total_cost (frame_view df') (columns df') (i, ?r1) = Inr (vs ! n)"
    by auto
  have lentc: "length tc = length (rows df')" by (simp add: tc_eq lenvs)
  let ?w = "tc ! n"
  let ?ext = "(i, AList.update ''Total_Cost'' ?w ?r1)"
  have w: "?w = vs ! n \<or> ?w = to_float (vs ! n)"
    unfolding tc_eq using series_infer_nth [of n vs] n len1 lenvs by simp
  have row2: "?rows2 ! n = ?ext"
    using with_column_nth [OF lentc, of n "''Total_Cost''"] n len1 row1 by simp
  have mem: "?ext \<in> set ?rows2"
    using nth_mem [of n ?rows2] row2
      with_column_length [OF lentc, of "''Total_Cost''"] n len1 by simp
  have na: "isna ?w = isna (vs ! n)" using w by auto
  have fate: "?ext \<in> (if isna (vs ! n) then set (rows errors) - set (rows valid)
             else set (rows valid) - set (rows errors))"
    using mem na by (simp add: valid errors select_rows_def cell_update)
  have lab: "distinct (labels df) \<longrightarrow> i \<notin> set (labels (if isna (vs ! n) then valid else errors))"
  proof
    assume dist: "distinct (labels df)"
    have "labels (with_column df' ''Total_Cost'' tc) = labels df"
      using with_column_labels [OF lentc, of "''Total_Cost''"]
        with_column_labels [of ?ups df "''Unit_Price''"] by (simp add: df')
    with dist have d2: "distinct (map fst ?rows2)" by (simp add: labels_def)
    { fix r' assume "(i, r') \<in> set ?rows2"
      with d2 mem have "r' = AList.update ''Total_Cost'' ?w ?r1"
        by (metis eq_key_imp_eq_value) }
    note uniq = this
    show "i \<notin> set (labels (if isna (vs ! n) then valid else errors))"
    proof
      assume "i \<in> set (labels (if isna (vs ! n) then valid else errors))"
      then obtain r' where r': "(i, r') \<in> set (rows (if isna (vs ! n) then valid else errors))"
        by (auto simp: labels_def)
      then have "(i, r') \<in> set ?rows2"
        by (auto simp: valid errors select_rows_def split: if_splits)
      from uniq [OF this] r' fate show False
        by (auto split: if_splits)
    qed
  qed
  from v w fate lab show ?thesis by blast
qed




lemma frame_view_object:
  assumes c: "c \<in> set (columns df)" and row: "(i, r) \<in> set (rows df)"
    and obj: "is_str (cell r c) \<or> is_none (cell r c)"
  shows "frame_view df = PyObject"
proof -
  from row have mem: "cell r c \<in> set (column_values df c)"
    by (force simp: column_values_def)
  from obj have "\<not> is_int (cell r c)" "\<not> is_float (cell r c)"
    by (cases "cell r c"; simp)+
  with mem have "dtype_of (column_values df c) = Object"
    by (auto simp: dtype_of_def list_all_iff)
  with c have "\<exists>k\<in>set (columns df). dtype_of (column_values df k) \<noteq> Int64"
    and "\<exists>k\<in>set (columns df). dtype_of (column_values df k) = Object"
    by force+
  then show ?thesis
    by (simp add: frame_view_def Let_def list_all_iff)
qed

lemma view_after_unit_price:
  assumes c: "c \<in> set (columns df)" and "c \<noteq> ''Unit_Price''"
    and n: "n < length (rows df)" and row: "rows df ! n = (i, r)"
    and len: "length us = length (rows df)"
    and obj: "is_str (cell r c) \<or> is_none (cell r c)"
  shows "frame_view (with_column df ''Unit_Price'' us) = PyObject"
proof (rule frame_view_object)
  show "c \<in> set (columns (with_column df ''Unit_Price'' us))"
    using c by (simp add: with_column_columns)
  show "(i, AList.update ''Unit_Price'' (us ! n) r) \<in> set (rows (with_column df ''Unit_Price'' us))"
    using with_column_nth [OF len n, of "''Unit_Price''"] row
      nth_mem [of n "rows (with_column df ''Unit_Price'' us)"] with_column_length [OF len] n
    by simp
  show "is_str (cell (AList.update ''Unit_Price'' (us ! n) r) c)
      \<or> is_none (cell (AList.update ''Unit_Price'' (us ! n) r) c)"
    using obj assms(2) by (simp add: cell_update)
qed


lemma in_rows_nth: "(i, r) \<in> set (rows df) \<Longrightarrow> \<exists>n<length (rows df). rows df ! n = (i, r)"
  by (simp add: in_set_conv_nth)

lemmas eval_defs = process_sales_data_def with_column_def fillna_def series_map_def
  series_infer_def dtype_of_def column_values_def cell_def apply_total_cost_def frame_view_def
  total_cost_def select_rows_def Let_def not_found_def float_overflow_def

lemma sales_example_processed:
  "process_sales_data sales_example prices_example =
     (sales_example_after, Inr (sales_example_valid, sales_example_errors))"
  by (simp add: sales_example_def prices_example_def sales_example_after_def
      sales_example_valid_def sales_example_errors_def eval_defs)

lemma text_quantity_processed:
  "process_sales_data text_quantity_sales int_price =
     (text_quantity_after, Inr (text_quantity_valid, no_rows))"
  by (simp add: text_quantity_sales_def int_price_def text_quantity_after_def
      text_quantity_valid_def no_rows_def eval_defs eval_nat_numeral)












lemma int64_no_overflow: "- (2 ^ 63) \<le> i \<Longrightarrow> i < 2 ^ 63 \<Longrightarrow> \<not> float_overflow i"
proof -
  assume "- (2 ^ 63) \<le> i" and "i < 2 ^ 63"
  then have "\<bar>i\<bar> \<le> 2 ^ 63" by simp
  moreover have "(2 :: int) ^ 63 < 2 ^ 1024 - 2 ^ 970" by simp
  ultimately show ?thesis
    unfolding float_overflow_def by linarith
qed

lemma py_mul_numbers:
  "numeric_cell x \<Longrightarrow> numeric_cell y \<Longrightarrow> \<exists>v. py_mul x y = Inr v"
  by (cases x; cases y) (simp_all add: int64_no_overflow)

lemma view_cell_number: "numeric_cell v \<Longrightarrow> numeric_cell (view_cell vw v)"
  by (cases vw; cases v) simp_all

lemma view_cell_price:
  "isinstance_int_float vw (view_cell vw u) \<Longrightarrow> price_in_range u \<Longrightarrow>
   numeric_cell (view_cell vw u)"
  by (cases vw; cases u) simp_all

lemma total_cost_returns:
  assumes "''Quantity'' \<in> set cols"
    and "numeric_cell (cell (snd row) ''Quantity'') \<or> is_str (cell (snd row) ''Unit_Price'')"
    and "price_in_range (cell (snd row) ''Unit_Price'')"
  shows "\<exists>v. total_cost vw cols row = Inr v"
proof (cases "isinstance_int_float vw (view_cell vw (cell (snd row) ''Unit_Price''))")
  case False
  then show ?thesis by (simp add: total_cost_def)
next
  case True
  from True assms(3) have u: "numeric_cell (view_cell vw (cell (snd row) ''Unit_Price''))"
    by (rule view_cell_price)
  from True have "\<not> is_str (cell (snd row) ''Unit_Price'')"
    by (cases vw; cases "cell (snd row) ''Unit_Price''") simp_all
  with assms(2) have "numeric_cell (cell (snd row) ''Quantity'')" by simp
  then have "numeric_cell (view_cell vw (cell (snd row) ''Quantity''))"
    by (rule view_cell_number)
  from py_mul_numbers [OF this u] True assms(1) show ?thesis
    by (simp add: total_cost_def)
qed

lemma apply_rows_returns:
  "\<forall>row\<in>set rs. \<exists>v. f row = Inr v \<Longrightarrow> \<exists>vs. apply_rows f rs = Inr vs"
  by (induction rs) auto

lemma price_in_range_to_float: "price_in_range (to_float v)"
  by (cases v) simp_all

lemma series_infer_in_range:
  "\<forall>v\<in>set vs. price_in_range v \<Longrightarrow> \<forall>v\<in>set (series_infer vs). price_in_range v"
  by (simp add: series_infer_def price_in_range_to_float)

lemma series_map_in_range:
  assumes "\<forall>kv\<in>set d. price_in_range (snd kv)"
  shows "\<forall>v\<in>set (series_map keys d). price_in_range v"
proof -
  define mapper where "mapper = zip (map fst d) (series_infer (map snd d))"
  from assms have "\<forall>v\<in>set (map snd d). price_in_range v" by simp
  then have inferred: "\<forall>v\<in>set (series_infer (map snd d)). price_in_range v"
    by (rule series_infer_in_range)
  have found: "price_in_range v" if "map_of mapper k = Some v" for k v
  proof -
    from that have "(k, v) \<in> set mapper" by (rule map_of_SomeD)
    then have "v \<in> set (series_infer (map snd d))"
      unfolding mapper_def by (rule set_zip_rightD)
    with inferred show ?thesis by blast
  qed
  have "price_in_range (case map_of mapper k of
                          None \<Rightarrow> PNaN
                        | Some v \<Rightarrow> if upcast then to_float v else v)" for k upcast
    using found [of k] by (cases "map_of mapper k") (simp_all add: price_in_range_to_float)
  then show ?thesis
    by (simp add: series_map_def Let_def mapper_def [symmetric])
qed

lemma fillna_in_range:
  "\<forall>v\<in>set vs. price_in_range v \<Longrightarrow> \<forall>v\<in>set (fillna s vs). price_in_range v"
  by (auto simp: fillna_def)

lemma process_sales_data_returns:
  assumes product: "''Product'' \<in> set (columns df)"
    and quantity: "''Quantity'' \<in> set (columns df)"
    and prices: "\<forall>kv\<in>set d. price_in_range (snd kv)"
    and cells: "\<forall>row\<in>set (rows df).
                  numeric_cell (cell (snd row) ''Quantity'')
                  \<or> (\<exists>p. cell (snd row) ''Product'' = PStr p \<and> map_of d (PStr p) = None)"
  shows "\<exists>df' valid errors. process_sales_data df d = (df', Inr (valid, errors))"
proof -
  let ?ups = "fillna not_found (series_map (column_values df ''Product'') d)"
  let ?df1 = "with_column df ''Unit_Price'' ?ups"
  have len: "length ?ups = length (rows df)" by simp
  have q1: "''Quantity'' \<in> set (columns ?df1)"
    using quantity by (simp add: with_column_columns)
  have range: "\<forall>v\<in>set ?ups. price_in_range v"
    by (intro fillna_in_range series_map_in_range prices)
  have "\<exists>tc. apply_total_cost ?df1 = Inr tc"
  proof (cases "rows ?df1 = []")
    case True
    with q1 show ?thesis by (simp add: apply_total_cost_def)
  next
    case False
    have "\<forall>row\<in>set (rows ?df1). \<exists>v. total_cost (frame_view ?df1) (columns ?df1) row = Inr v"
    proof
      fix row assume "row \<in> set (rows ?df1)"
      then obtain n where n: "n < length (rows df)" and row: "row = rows ?df1 ! n"
        using with_column_length [OF len, of "''Unit_Price''"] by (auto simp: in_set_conv_nth)
      obtain i r where nth: "rows df ! n = (i, r)" by (cases "rows df ! n")
      have row1: "row = (i, AList.update ''Unit_Price'' (?ups ! n) r)"
        using with_column_nth [OF len n, of "''Unit_Price''"] nth row by simp
      from n len have "?ups ! n \<in> set ?ups" by (metis nth_mem)
      with range have "price_in_range (?ups ! n)" by blast
      then have in_range: "price_in_range (cell (snd row) ''Unit_Price'')"
        by (simp add: row1 cell_update)
      from n nth have "(i, r) \<in> set (rows df)" by (metis nth_mem)
      with cells have
        "numeric_cell (cell r ''Quantity'')
         \<or> (\<exists>p. cell r ''Product'' = PStr p \<and> map_of d (PStr p) = None)"
        by auto
      then have "numeric_cell (cell (snd row) ''Quantity'') \<or> is_str (cell (snd row) ''Unit_Price'')"
      proof
        assume "numeric_cell (cell r ''Quantity'')"
        then show ?thesis by (simp add: row1 cell_update)
      next
        assume "\<exists>p. cell r ''Product'' = PStr p \<and> map_of d (PStr p) = None"
        then obtain p where p: "cell r ''Product'' = PStr p" "map_of d (PStr p) = None" by blast
        have "?ups ! n = PStr not_found"
          by (rule unit_price_missing) (use n p column_values_nth [OF n nth, of "''Product''"] in simp_all)
        then show ?thesis by (simp add: row1 cell_update)
      qed
      from total_cost_returns [OF q1 this in_range]
      show "\<exists>v. total_cost (frame_view ?df1) (columns ?df1) row = Inr v" .
    qed
    from apply_rows_returns [OF this] False show ?thesis
      by (auto simp: apply_total_cost_def)
  qed
  with product show ?thesis
    by (auto simp: process_sales_data_def Let_def)
qed











subsection \<open>The price dictionary\<close>



subsection \<open>The two partitions\<close>




subsection \<open>Rows of unknown products\<close>

text \<open>
  C4, as amended. Take a sale whose \<open>Product\<close> is a text that is not a key of the price
  dictionary. The processor returns when the table has distinct column names, among
  them \<open>Product\<close> and \<open>Quantity\<close>, every integer price of the dictionary is an
  int64 integer, and every row has a \<open>Quantity\<close> that is an int64 integer, a float or
  NaN, or a \<open>Product\<close> that is a text and not a key of the dictionary. Whenever the
  processor returns, the sale has the marker as its \<open>Unit_Price\<close> and a missing
  \<open>Total_Cost\<close>, and is a row of the error frame and not of the valid one, whatever
  its \<open>Quantity\<close> is: nothing is assumed of it, so that zero is included.
\<close>

theorem unknown_product_is_error:
  assumes row: "(i, r) \<in> set (rows df_sales)"
    and product: "cell r ''Product'' = PStr p"
    and unknown: "map_of product_prices (PStr p) = None"
  shows "(distinct (columns df_sales)
            \<and> ''Product'' \<in> set (columns df_sales) \<and> ''Quantity'' \<in> set (columns df_sales)
            \<and> (\<forall>kv\<in>set product_prices. price_in_range (snd kv))
            \<and> (\<forall>row\<in>set (rows df_sales).
                  numeric_cell (cell (snd row) ''Quantity'')
                  \<or> (\<exists>q. cell (snd row) ''Product'' = PStr q
                         \<and> map_of product_prices (PStr q) = None))
            \<longrightarrow> (\<exists>df' valid errors.
                   process_sales_data df_sales product_prices = (df', Inr (valid, errors))))
       \<and> (\<forall>df' valid errors.
            process_sales_data df_sales product_prices = (df', Inr (valid, errors)) \<longrightarrow>
            (\<exists>w. isna w
               \<and> (i, AList.update ''Total_Cost'' w
                       (AList.update ''Unit_Price'' (PStr not_found) r))
                   \<in> set (rows errors) - set (rows valid)
               \<and> (distinct (labels df_sales) \<longrightarrow> i \<notin> set (labels valid))))"
proof -
  have returns: "(distinct (columns df_sales)
            \<and> ''Product'' \<in> set (columns df_sales) \<and> ''Quantity'' \<in> set (columns df_sales)
            \<and> (\<forall>kv\<in>set product_prices. price_in_range (snd kv))
            \<and> (\<forall>row\<in>set (rows df_sales).
                  numeric_cell (cell (snd row) ''Quantity'')
                  \<or> (\<exists>q. cell (snd row) ''Product'' = PStr q
                         \<and> map_of product_prices (PStr q) = None))
            \<longrightarrow> (\<exists>df' valid errors.
                   process_sales_data df_sales product_prices = (df', Inr (valid, errors))))"
    using process_sales_data_returns [of df_sales product_prices] by blast
  have placed: "\<exists>w. isna w
               \<and> (i, AList.update ''Total_Cost'' w
                       (AList.update ''Unit_Price'' (PStr not_found) r))
                   \<in> set (rows errors) - set (rows valid)
               \<and> (distinct (labels df_sales) \<longrightarrow> i \<notin> set (labels valid))"
    if ret: "process_sales_data df_sales product_prices = (df', Inr (valid, errors))"
    for df' valid errors
  proof -
    from in_rows_nth [OF row] obtain n where n: "n < length (rows df_sales)"
      and nth: "rows df_sales ! n = (i, r)" by blast
    have key: "column_values df_sales ''Product'' ! n = PStr p"
      using column_values_nth [OF n nth] product by simp
    have u: "fillna not_found (series_map (column_values df_sales ''Product'') product_prices) ! n
               = PStr not_found"
      by (rule unit_price_missing) (use n key unknown in simp_all)
    from processed_row [OF ret n nth] obtain v w where
      v: "total_cost (frame_view df') (columns df')
            (i, AList.update ''Unit_Price'' (PStr not_found) r) = Inr v"
      and w: "w = v \<or> w = to_float v"
      and fate: "(i, AList.update ''Total_Cost'' w (AList.update ''Unit_Price'' (PStr not_found) r))
                   \<in> (if isna v then set (rows errors) - set (rows valid)
                      else set (rows valid) - set (rows errors))"
      and lab: "distinct (labels df_sales) \<longrightarrow> i \<notin> set (labels (if isna v then valid else errors))"
      unfolding u by blast
    have "v = PNone"
      using v by (cases "frame_view df'") (simp_all add: total_cost_def cell_update)
    with w have "isna v" "isna w" by auto
    with fate lab show ?thesis
      by (intro exI [of _ w]) simp
  qed
  from returns placed show ?thesis
    by blast
qed

theorem unknown_product_is_error_witness:
  "map_of prices_example (PStr ''C'') = None
   \<and> distinct (columns sales_example)
   \<and> ''Product'' \<in> set (columns sales_example) \<and> ''Quantity'' \<in> set (columns sales_example)
   \<and> list_all (\<lambda>kv. price_in_range (snd kv)) prices_example
   \<and> list_all (\<lambda>row. numeric_cell (cell (snd row) ''Quantity'')) (rows sales_example)
   \<and> process_sales_data sales_example prices_example =
       (sales_example_after, Inr (sales_example_valid, sales_example_errors))
   \<and> (2, [(''Product'', PStr ''C''), (''Quantity'', PFloat 0),
           (''Unit_Price'', PStr ''Producto no encontrado''), (''Total_Cost'', PNaN)])
       \<in> set (rows sales_example_errors) - set (rows sales_example_valid)
   \<and> 2 \<notin> set (labels sales_example_valid)"
proof -
  have row: "(2, [(''Product'', PStr ''C''), (''Quantity'', PFloat 0)]) \<in> set (rows sales_example)"
    by (simp add: sales_example_def)
  have product: "cell [(''Product'', PStr ''C''), (''Quantity'', PFloat 0)] ''Product'' = PStr ''C''"
    by (simp add: cell_def)
  have unknown: "map_of prices_example (PStr ''C'') = None"
    by (simp add: prices_example_def)
  have cols: "''Product'' \<in> set (columns sales_example) \<and> ''Quantity'' \<in> set (columns sales_example)"
    by (simp add: sales_example_def)
  have names: "distinct (columns sales_example)"
    by (simp add: sales_example_def)
  have prices: "list_all (\<lambda>kv. price_in_range (snd kv)) prices_example"
    by (simp add: prices_example_def)
  then have range: "\<forall>kv\<in>set prices_example. price_in_range (snd kv)"
    by (simp add: list_all_iff)
  have cells: "list_all (\<lambda>row. numeric_cell (cell (snd row) ''Quantity'')) (rows sales_example)"
    by (simp add: sales_example_def cell_def)
  then have all: "\<forall>row\<in>set (rows sales_example). numeric_cell (cell (snd row) ''Quantity'')"
    by (simp add: list_all_iff)
  have d: "distinct (labels sales_example)"
    by (simp add: labels_def sales_example_def)
  note fact = unknown_product_is_error [OF row product unknown]
  from fact names cols range all
  have "\<exists>df' valid errors.
          process_sales_data sales_example prices_example = (df', Inr (valid, errors))"
    by blast
  then have ret: "process_sales_data sales_example prices_example =
                    (sales_example_after, Inr (sales_example_valid, sales_example_errors))"
    by (simp add: sales_example_processed)
  from fact ret d
  have "\<exists>w. isna w
          \<and> (2, AList.update ''Total_Cost'' w
                  (AList.update ''Unit_Price'' (PStr not_found)
                     [(''Product'', PStr ''C''), (''Quantity'', PFloat 0)]))
              \<in> set (rows sales_example_errors) - set (rows sales_example_valid)
          \<and> 2 \<notin> set (labels sales_example_valid)"
    by blast
  with unknown names cols prices cells ret show ?thesis
    by (simp add: labels_def sales_example_def sales_example_valid_def sales_example_errors_def)
qed

text \<open>
  C4 as stated places the sale of an unknown product in the error frame for every table.
  In the two tables below product \<open>C\<close> is unknown and no error frame is returned: in
  the first there is no column \<open>Quantity\<close>, and the lambda raises \<open>KeyError\<close> at the
  sale of product \<open>A\<close>, whose price is a number; in the second the sale of product
  \<open>A\<close> has a text as its \<open>Quantity\<close> and a float price.
\<close>

theorem unknown_product_counterexample:
  "map_of prices_example (PStr ''C'') = None
   \<and> rows no_quantity_sales = [(0, [(''Product'', PStr ''C'')]), (1, [(''Product'', PStr ''A'')])]
   \<and> snd (process_sales_data no_quantity_sales prices_example) = Inl (KeyError ''Quantity'')
   \<and> map_of float_price (PStr ''C'') = None
   \<and> rows unknown_and_text_sales =
       [(0, [(''Product'', PStr ''C''), (''Quantity'', PInt 1)]),
        (1, [(''Product'', PStr ''A''), (''Quantity'', PStr ''x'')])]
   \<and> snd (process_sales_data unknown_and_text_sales float_price)
       = Inl (TypeError ''multiply sequence by float'')"
  by (simp add: no_quantity_sales_def unknown_and_text_sales_def prices_example_def
      float_price_def eval_defs)

subsection \<open>Rows without a quantity\<close>

text \<open>
  C10, as amended. Take a sale whose \<open>Quantity\<close> cell is NaN (the field is missing or
  null) in a table that has the column \<open>Quantity\<close>. The lambda raises nothing for the
  row and returns NaN or \<open>None\<close>, whatever the unit price, an integer one being an
  int64 integer. The processor returns when the table has distinct column names, among
  them \<open>Product\<close> too, every integer price of the dictionary is an int64 integer, and
  every row has a \<open>Quantity\<close> that is an int64 integer, a float or NaN, or a
  \<open>Product\<close> that is a text and not a key of the price dictionary. Whenever the processor returns, the sale has a missing
  \<open>Total_Cost\<close> and is a row of the error frame and not of the valid one, so that it
  adds nothing to the total.
\<close>

theorem missing_quantity_is_error:
  assumes row: "(i, r) \<in> set (rows df_sales)"
    and quantity: "cell r ''Quantity'' = PNaN"
    and column: "''Quantity'' \<in> set (columns df_sales)"
  shows "(\<forall>vw cols u. set (columns df_sales) \<subseteq> set cols \<and> price_in_range u \<longrightarrow>
            total_cost vw cols (i, AList.update ''Unit_Price'' u r) \<in> {Inr PNaN, Inr PNone})
       \<and> (distinct (columns df_sales) \<and> ''Product'' \<in> set (columns df_sales)
            \<and> (\<forall>kv\<in>set product_prices. price_in_range (snd kv))
            \<and> (\<forall>row\<in>set (rows df_sales).
                  numeric_cell (cell (snd row) ''Quantity'')
                  \<or> (\<exists>q. cell (snd row) ''Product'' = PStr q
                         \<and> map_of product_prices (PStr q) = None))
            \<longrightarrow> (\<exists>df' valid errors.
                   process_sales_data df_sales product_prices = (df', Inr (valid, errors))))
       \<and> (\<forall>df' valid errors.
            process_sales_data df_sales product_prices = (df', Inr (valid, errors)) \<longrightarrow>
            (\<exists>u w. isna w
               \<and> (i, AList.update ''Total_Cost'' w (AList.update ''Unit_Price'' u r))
                   \<in> set (rows errors) - set (rows valid)
               \<and> (distinct (labels df_sales) \<longrightarrow> i \<notin> set (labels valid))))"
proof -
  have quiet: "total_cost vw cols (i, AList.update ''Unit_Price'' u r) \<in> {Inr PNaN, Inr PNone}"
    if "set (columns df_sales) \<subseteq> set cols" and "price_in_range u" for vw cols u
  proof -
    from that column have "''Quantity'' \<in> set cols" by blast
    then show ?thesis
      using quantity \<open>price_in_range u\<close>
      by (cases vw; cases u) (simp_all add: total_cost_def cell_update int64_no_overflow)
  qed
  have returns: "(distinct (columns df_sales) \<and> ''Product'' \<in> set (columns df_sales)
            \<and> (\<forall>kv\<in>set product_prices. price_in_range (snd kv))
            \<and> (\<forall>row\<in>set (rows df_sales).
                  numeric_cell (cell (snd row) ''Quantity'')
                  \<or> (\<exists>q. cell (snd row) ''Product'' = PStr q
                         \<and> map_of product_prices (PStr q) = None))
            \<longrightarrow> (\<exists>df' valid errors.
                   process_sales_data df_sales product_prices = (df', Inr (valid, errors))))"
    using process_sales_data_returns [of df_sales product_prices] column by blast
  have placed: "\<exists>u w. isna w
               \<and> (i, AList.update ''Total_Cost'' w (AList.update ''Unit_Price'' u r))
                   \<in> set (rows errors) - set (rows valid)
               \<and> (distinct (labels df_sales) \<longrightarrow> i \<notin> set (labels valid))"
    if ret: "process_sales_data df_sales product_prices = (df', Inr (valid, errors))"
    for df' valid errors
  proof -
    from in_rows_nth [OF row] obtain n where n: "n < length (rows df_sales)"
      and nth: "rows df_sales ! n = (i, r)" by blast
    define u where
      "u = fillna not_found (series_map (column_values df_sales ''Product'') product_prices) ! n"
    from processed_row [OF ret n nth] obtain v w where
      v: "total_cost (frame_view df') (columns df') (i, AList.update ''Unit_Price'' u r) = Inr v"
      and w: "w = v \<or> w = to_float v"
      and fate: "(i, AList.update ''Total_Cost'' w (AList.update ''Unit_Price'' u r))
                   \<in> (if isna v then set (rows errors) - set (rows valid)
                      else set (rows valid) - set (rows errors))"
      and lab: "distinct (labels df_sales) \<longrightarrow> i \<notin> set (labels (if isna v then valid else errors))"
      unfolding u_def by blast
    have "isna v"
      using v quantity
      by (cases "frame_view df'"; cases u)
        (auto simp: total_cost_def cell_update Let_def split: if_splits)
    with w have "isna w" by auto
    with \<open>isna v\<close> fate lab show ?thesis
      by (intro exI [of _ u] exI [of _ w]) simp
  qed
  from quiet have 1: "\<forall>vw cols u. set (columns df_sales) \<subseteq> set cols \<and> price_in_range u \<longrightarrow>
            total_cost vw cols (i, AList.update ''Unit_Price'' u r) \<in> {Inr PNaN, Inr PNone}"
    by blast
  from placed have 3: "\<forall>df' valid errors.
            process_sales_data df_sales product_prices = (df', Inr (valid, errors)) \<longrightarrow>
            (\<exists>u w. isna w
               \<and> (i, AList.update ''Total_Cost'' w (AList.update ''Unit_Price'' u r))
                   \<in> set (rows errors) - set (rows valid)
               \<and> (distinct (labels df_sales) \<longrightarrow> i \<notin> set (labels valid)))"
    by blast
  from 1 returns 3 show ?thesis
    by (intro conjI)
qed

theorem missing_quantity_is_error_witness:
  "map_of prices_example (PStr ''A'') = Some (PInt 10)
   \<and> distinct (columns sales_example)
   \<and> ''Product'' \<in> set (columns sales_example) \<and> ''Quantity'' \<in> set (columns sales_example)
   \<and> list_all (\<lambda>kv. price_in_range (snd kv)) prices_example
   \<and> list_all (\<lambda>row. numeric_cell (cell (snd row) ''Quantity'')) (rows sales_example)
   \<and> process_sales_data sales_example prices_example =
       (sales_example_after, Inr (sales_example_valid, sales_example_errors))
   \<and> total_cost PyObject (columns sales_example_after)
        (4, [(''Product'', PStr ''A''), (''Quantity'', PNaN), (''Unit_Price'', PFloat 10)])
      \<in> {Inr PNaN, Inr PNone}
   \<and> (4, [(''Product'', PStr ''A''), (''Quantity'', PNaN), (''Unit_Price'', PFloat 10),
           (''Total_Cost'', PNaN)])
       \<in> set (rows sales_example_errors) - set (rows sales_example_valid)
   \<and> 4 \<notin> set (labels sales_example_valid)"
proof -
  have row: "(4, [(''Product'', PStr ''A''), (''Quantity'', PNaN)]) \<in> set (rows sales_example)"
    by (simp add: sales_example_def)
  have quantity: "cell [(''Product'', PStr ''A''), (''Quantity'', PNaN)] ''Quantity'' = PNaN"
    by (simp add: cell_def)
  have product: "''Product'' \<in> set (columns sales_example)"
    and column: "''Quantity'' \<in> set (columns sales_example)"
    by (simp_all add: sales_example_def)
  have names: "distinct (columns sales_example)"
    by (simp add: sales_example_def)
  have prices: "list_all (\<lambda>kv. price_in_range (snd kv)) prices_example"
    by (simp add: prices_example_def)
  then have range: "\<forall>kv\<in>set prices_example. price_in_range (snd kv)"
    by (simp add: list_all_iff)
  have cells: "list_all (\<lambda>row. numeric_cell (cell (snd row) ''Quantity'')) (rows sales_example)"
    by (simp add: sales_example_def cell_def)
  then have all: "\<forall>row\<in>set (rows sales_example). numeric_cell (cell (snd row) ''Quantity'')"
    by (simp add: list_all_iff)
  have found: "map_of prices_example (PStr ''A'') = Some (PInt 10)"
    by (simp add: prices_example_def)
  have d: "distinct (labels sales_example)"
    by (simp add: labels_def sales_example_def)
  have sub: "set (columns sales_example) \<subseteq> set (columns sales_example_after)"
    by (simp add: sales_example_def sales_example_after_def)
  note fact = missing_quantity_is_error [OF row quantity column, of prices_example]
  from fact names product range all
  have "\<exists>df' valid errors.
          process_sales_data sales_example prices_example = (df', Inr (valid, errors))"
    by blast
  then have ret: "process_sales_data sales_example prices_example =
                    (sales_example_after, Inr (sales_example_valid, sales_example_errors))"
    by (simp add: sales_example_processed)
  have "price_in_range (PFloat 10)"
    by simp
  with fact sub
  have "total_cost PyObject (columns sales_example_after)
          (4, AList.update ''Unit_Price'' (PFloat 10)
                [(''Product'', PStr ''A''), (''Quantity'', PNaN)])
        \<in> {Inr PNaN, Inr PNone}"
    by blast
  then have quiet: "total_cost PyObject (columns sales_example_after)
        (4, [(''Product'', PStr ''A''), (''Quantity'', PNaN), (''Unit_Price'', PFloat 10)])
      \<in> {Inr PNaN, Inr PNone}"
    by simp
  from fact ret d
  have "\<exists>u w. isna w
          \<and> (4, AList.update ''Total_Cost'' w
                  (AList.update ''Unit_Price'' u
                     [(''Product'', PStr ''A''), (''Quantity'', PNaN)]))
              \<in> set (rows sales_example_errors) - set (rows sales_example_valid)
          \<and> 4 \<notin> set (labels sales_example_valid)"
    by blast
  then have placed: "(4, [(''Product'', PStr ''A''), (''Quantity'', PNaN),
                          (''Unit_Price'', PFloat 10), (''Total_Cost'', PNaN)])
                       \<in> set (rows sales_example_errors) - set (rows sales_example_valid)
                     \<and> 4 \<notin> set (labels sales_example_valid)"
    by (simp add: labels_def sales_example_valid_def sales_example_errors_def)
  from found names product column prices cells ret quiet placed show ?thesis
    by (intro conjI) simp_all
qed

text \<open>
  C10 as stated sends every sale without a quantity to the error frame and lets none
  raise. In the three tables below product \<open>A\<close> is found and its sale has no quantity,
  and the processor raises: in the first the sale of label 1 has a text as its
  \<open>Quantity\<close> and a float price; in the second no sale has a \<open>Quantity\<close>, the table
  has no such column, and the lambda raises \<open>KeyError\<close> at the sale of product \<open>A\<close>
  itself; in the third the null stands in a column that holds a text, where it is
  \<open>None\<close> and not NaN, and \<open>None\<close> times the price raises \<open>TypeError\<close>.
\<close>

theorem missing_quantity_counterexample:
  "map_of float_price (PStr ''A'') = Some (PFloat (5 / 2))
   \<and> rows nan_and_text_sales =
       [(0, [(''Product'', PStr ''A''), (''Quantity'', PNaN)]),
        (1, [(''Product'', PStr ''A''), (''Quantity'', PStr ''x'')])]
   \<and> snd (process_sales_data nan_and_text_sales float_price)
       = Inl (TypeError ''multiply sequence by float'')
   \<and> map_of prices_example (PStr ''A'') = Some (PInt 10)
   \<and> columns no_quantity_sales = [''Product'']
   \<and> snd (process_sales_data no_quantity_sales prices_example) = Inl (KeyError ''Quantity'')
   \<and> rows none_quantity_sales =
       [(0, [(''Product'', PStr ''A''), (''Quantity'', PNone)]),
        (1, [(''Product'', PStr ''C''), (''Quantity'', PStr ''x'')])]
   \<and> snd (process_sales_data none_quantity_sales prices_example)
       = Inl (TypeError ''unsupported operand types for *'')"
  by (simp add: nan_and_text_sales_def no_quantity_sales_def none_quantity_sales_def
      prices_example_def float_price_def eval_defs)

subsection \<open>Rows of quantity zero\<close>

text \<open>
  C7, as amended. Take a sale of quantity zero (the integer or the float) whose
  \<open>Product\<close> is a text found in the price dictionary with a numeric price (an integer
  or a finite float). The processor returns when the table has distinct column names,
  among them \<open>Product\<close> and \<open>Quantity\<close>, every integer price of the dictionary is
  an int64 integer, and every row has a \<open>Quantity\<close> that is an int64 integer, a float
  or NaN, or a \<open>Product\<close> that is a text and not a key of the dictionary. Whenever the
  processor returns, the sale has \<open>Total_Cost\<close> zero, and is a row of the valid frame
  and not of the error one; its \<open>Unit_Price\<close> is the price, as a float when the
  column is float64.
\<close>

theorem zero_quantity_is_valid:
  assumes row: "(i, r) \<in> set (rows df_sales)"
    and product: "cell r ''Product'' = PStr p"
    and found: "map_of product_prices (PStr p) = Some price"
    and numeric: "price = PInt a \<or> price = PFloat b"
    and zero: "cell r ''Quantity'' = PInt 0 \<or> cell r ''Quantity'' = PFloat 0"
  shows "(distinct (columns df_sales)
            \<and> ''Product'' \<in> set (columns df_sales) \<and> ''Quantity'' \<in> set (columns df_sales)
            \<and> (\<forall>kv\<in>set product_prices. price_in_range (snd kv))
            \<and> (\<forall>row\<in>set (rows df_sales).
                  numeric_cell (cell (snd row) ''Quantity'')
                  \<or> (\<exists>q. cell (snd row) ''Product'' = PStr q
                         \<and> map_of product_prices (PStr q) = None))
            \<longrightarrow> (\<exists>df' valid errors.
                   process_sales_data df_sales product_prices = (df', Inr (valid, errors))))
       \<and> (\<forall>df' valid errors.
            process_sales_data df_sales product_prices = (df', Inr (valid, errors)) \<longrightarrow>
            (\<exists>u w. (u = price \<or> u = to_float price) \<and> (w = PInt 0 \<or> w = PFloat 0)
               \<and> (i, AList.update ''Total_Cost'' w (AList.update ''Unit_Price'' u r))
                   \<in> set (rows valid) - set (rows errors)
               \<and> (distinct (labels df_sales) \<longrightarrow> i \<notin> set (labels errors))))"
proof -
  have returns: "(distinct (columns df_sales)
            \<and> ''Product'' \<in> set (columns df_sales) \<and> ''Quantity'' \<in> set (columns df_sales)
            \<and> (\<forall>kv\<in>set product_prices. price_in_range (snd kv))
            \<and> (\<forall>row\<in>set (rows df_sales).
                  numeric_cell (cell (snd row) ''Quantity'')
                  \<or> (\<exists>q. cell (snd row) ''Product'' = PStr q
                         \<and> map_of product_prices (PStr q) = None))
            \<longrightarrow> (\<exists>df' valid errors.
                   process_sales_data df_sales product_prices = (df', Inr (valid, errors))))"
    using process_sales_data_returns [of df_sales product_prices] by blast
  have placed: "\<exists>u w. (u = price \<or> u = to_float price) \<and> (w = PInt 0 \<or> w = PFloat 0)
               \<and> (i, AList.update ''Total_Cost'' w (AList.update ''Unit_Price'' u r))
                   \<in> set (rows valid) - set (rows errors)
               \<and> (distinct (labels df_sales) \<longrightarrow> i \<notin> set (labels errors))"
    if ret: "process_sales_data df_sales product_prices = (df', Inr (valid, errors))"
    for df' valid errors
  proof -
    let ?ups = "fillna not_found (series_map (column_values df_sales ''Product'') product_prices)"
    from in_rows_nth [OF row] obtain n where n: "n < length (rows df_sales)"
      and nth: "rows df_sales ! n = (i, r)" by blast
    define u where "u = ?ups ! n"
    have key: "column_values df_sales ''Product'' ! n = PStr p"
      using column_values_nth [OF n nth] product by simp
    from numeric have "\<not> isna price" by auto
    with unit_price_found [of n "column_values df_sales ''Product''" product_prices price not_found]
      n key found
    have u: "u = price \<or> u = to_float price" by (simp add: u_def)
    from process_sales_data_Inr [OF ret] have
      pcol: "''Product'' \<in> set (columns df_sales)"
      and df': "df' = with_column df_sales ''Unit_Price'' ?ups" by blast+
    have vw: "frame_view df' = PyObject"
      unfolding df'
      by (rule view_after_unit_price [OF pcol _ n nth]) (simp_all add: product)
    from processed_row [OF ret n nth] obtain v w where
      v: "total_cost (frame_view df') (columns df') (i, AList.update ''Unit_Price'' u r) = Inr v"
      and w: "w = v \<or> w = to_float v"
      and fate: "(i, AList.update ''Total_Cost'' w (AList.update ''Unit_Price'' u r))
                   \<in> (if isna v then set (rows errors) - set (rows valid)
                      else set (rows valid) - set (rows errors))"
      and lab: "distinct (labels df_sales) \<longrightarrow> i \<notin> set (labels (if isna v then valid else errors))"
      unfolding u_def by blast
    have "v = PInt 0 \<or> v = PFloat 0"
      using v u numeric zero unfolding vw
      by (auto simp: total_cost_def cell_update Let_def split: if_splits)
    with w have "w = PInt 0 \<or> w = PFloat 0" and "\<not> isna v" by auto
    with u fate lab show ?thesis
      by (intro exI [of _ u] exI [of _ w]) simp
  qed
  from returns placed show ?thesis
    by blast
qed

theorem zero_quantity_is_valid_witness:
  "map_of prices_example (PStr ''B'') = Some (PInt 5)
   \<and> distinct (columns sales_example)
   \<and> ''Product'' \<in> set (columns sales_example) \<and> ''Quantity'' \<in> set (columns sales_example)
   \<and> list_all (\<lambda>kv. price_in_range (snd kv)) prices_example
   \<and> list_all (\<lambda>row. numeric_cell (cell (snd row) ''Quantity'')) (rows sales_example)
   \<and> process_sales_data sales_example prices_example =
       (sales_example_after, Inr (sales_example_valid, sales_example_errors))
   \<and> (3, [(''Product'', PStr ''B''), (''Quantity'', PFloat 0), (''Unit_Price'', PFloat 5),
           (''Total_Cost'', PFloat 0)])
       \<in> set (rows sales_example_valid) - set (rows sales_example_errors)
   \<and> 3 \<notin> set (labels sales_example_errors)"
proof -
  have row: "(3, [(''Product'', PStr ''B''), (''Quantity'', PFloat 0)]) \<in> set (rows sales_example)"
    by (simp add: sales_example_def)
  have product: "cell [(''Product'', PStr ''B''), (''Quantity'', PFloat 0)] ''Product'' = PStr ''B''"
    by (simp add: cell_def)
  have found: "map_of prices_example (PStr ''B'') = Some (PInt 5)"
    by (simp add: prices_example_def)
  have numeric: "PInt 5 = PInt 5 \<or> PInt 5 = PFloat 0"
    by simp
  have zero: "cell [(''Product'', PStr ''B''), (''Quantity'', PFloat 0)] ''Quantity'' = PInt 0
            \<or> cell [(''Product'', PStr ''B''), (''Quantity'', PFloat 0)] ''Quantity'' = PFloat 0"
    by (simp add: cell_def)
  have cols: "''Product'' \<in> set (columns sales_example) \<and> ''Quantity'' \<in> set (columns sales_example)"
    by (simp add: sales_example_def)
  have names: "distinct (columns sales_example)"
    by (simp add: sales_example_def)
  have prices: "list_all (\<lambda>kv. price_in_range (snd kv)) prices_example"
    by (simp add: prices_example_def)
  then have range: "\<forall>kv\<in>set prices_example. price_in_range (snd kv)"
    by (simp add: list_all_iff)
  have cells: "list_all (\<lambda>row. numeric_cell (cell (snd row) ''Quantity'')) (rows sales_example)"
    by (simp add: sales_example_def cell_def)
  then have all: "\<forall>row\<in>set (rows sales_example). numeric_cell (cell (snd row) ''Quantity'')"
    by (simp add: list_all_iff)
  have d: "distinct (labels sales_example)"
    by (simp add: labels_def sales_example_def)
  note fact = zero_quantity_is_valid [OF row product found numeric zero]
  from fact names cols range all
  have "\<exists>df' valid errors.
          process_sales_data sales_example prices_example = (df', Inr (valid, errors))"
    by blast
  then have ret: "process_sales_data sales_example prices_example =
                    (sales_example_after, Inr (sales_example_valid, sales_example_errors))"
    by (simp add: sales_example_processed)
  from fact ret d
  have "\<exists>u w. (u = PInt 5 \<or> u = to_float (PInt 5)) \<and> (w = PInt 0 \<or> w = PFloat 0)
          \<and> (3, AList.update ''Total_Cost'' w
                  (AList.update ''Unit_Price'' u
                     [(''Product'', PStr ''B''), (''Quantity'', PFloat 0)]))
              \<in> set (rows sales_example_valid) - set (rows sales_example_errors)
          \<and> 3 \<notin> set (labels sales_example_errors)"
    by blast
  then have placed: "(3, [(''Product'', PStr ''B''), (''Quantity'', PFloat 0),
                          (''Unit_Price'', PFloat 5), (''Total_Cost'', PFloat 0)])
                       \<in> set (rows sales_example_valid) - set (rows sales_example_errors)
                     \<and> 3 \<notin> set (labels sales_example_errors)"
    by (simp add: labels_def sales_example_valid_def sales_example_errors_def)
  from found names cols prices cells ret placed show ?thesis
    by (intro conjI) simp_all
qed

text \<open>
  C7 as stated speaks of every product found in the dictionary and of every table. In the
  first table below product \<open>A\<close> is found, with the text \<open>N/A\<close> as its price; the
  guard on \<open>Unit_Price\<close> sends the sale of quantity zero to the error frame, with
  \<open>None\<close> as its \<open>Total_Cost\<close>. In the second the product is the number \<open>1\<close>,
  found with the price \<open>10\<close>; every column of the table is int64, the lambda is given
  the price as a \<open>numpy.int64\<close>, which is no instance of \<open>int\<close>, and the sale goes to
  the error frame as well. In the third the sale of quantity zero stands next to a sale
  whose \<open>Quantity\<close> is a text, at which the processor raises.
\<close>

theorem zero_quantity_counterexample:
  "map_of text_price (PStr ''A'') = Some (PStr ''N/A'')
   \<and> rows zero_quantity_sales = [(0, [(''Product'', PStr ''A''), (''Quantity'', PInt 0)])]
   \<and> snd (process_sales_data zero_quantity_sales text_price) =
       Inr (no_rows,
            \<lparr>columns = [''Product'', ''Quantity'', ''Unit_Price'', ''Total_Cost''],
             rows = [(0, [(''Product'', PStr ''A''), (''Quantity'', PInt 0),
                          (''Unit_Price'', PStr ''N/A''), (''Total_Cost'', PNone)])]\<rparr>)
   \<and> map_of numeric_key_price (PInt 1) = Some (PInt 10)
   \<and> rows numeric_product_sales = [(0, [(''Product'', PInt 1), (''Quantity'', PInt 0)])]
   \<and> snd (process_sales_data numeric_product_sales numeric_key_price) =
       Inr (no_rows,
            \<lparr>columns = [''Product'', ''Quantity'', ''Unit_Price'', ''Total_Cost''],
             rows = [(0, [(''Product'', PInt 1), (''Quantity'', PInt 0),
                          (''Unit_Price'', PInt 10), (''Total_Cost'', PNone)])]\<rparr>)
   \<and> map_of float_price (PStr ''A'') = Some (PFloat (5 / 2))
   \<and> rows zero_and_text_sales =
       [(0, [(''Product'', PStr ''A''), (''Quantity'', PInt 0)]),
        (1, [(''Product'', PStr ''A''), (''Quantity'', PStr ''x'')])]
   \<and> snd (process_sales_data zero_and_text_sales float_price)
       = Inl (TypeError ''multiply sequence by float'')"
  by (simp add: zero_quantity_sales_def text_price_def no_rows_def numeric_product_sales_def
      numeric_key_price_def zero_and_text_sales_def float_price_def eval_defs)

subsection \<open>Rows whose quantity is a text\<close>

text \<open>
  C2. A sale whose \<open>Quantity\<close> is a text is not sent to the error frame. The lambda
  guards the type of \<open>Unit_Price\<close> only; for the sale below, whose product is found,
  it multiplies the text by the price. With the integer price \<open>3\<close> the product is the
  text repeated three times: the processor returns the sale in the valid frame, with
  \<open>xxx\<close> as its \<open>Total_Cost\<close>, and an error frame without rows. With the float
  price \<open>2.5\<close> the multiplication raises \<open>TypeError\<close>, which nothing catches: the
  processor returns no frame. A text in \<open>Unit_Price\<close>, by contrast, is diverted by
  the guard to the error frame.
\<close>

theorem text_quantity_is_billed:
  "rows text_quantity_sales = [(0, [(''Product'', PStr ''A''), (''Quantity'', PStr ''x'')])]
   \<and> map_of int_price (PStr ''A'') = Some (PInt 3)
   \<and> process_sales_data text_quantity_sales int_price =
       (text_quantity_after, Inr (text_quantity_valid, no_rows))
   \<and> rows text_quantity_valid =
       [(0, [(''Product'', PStr ''A''), (''Quantity'', PStr ''x''),
             (''Unit_Price'', PInt 3), (''Total_Cost'', PStr ''xxx'')])]
   \<and> rows no_rows = []
   \<and> map_of float_price (PStr ''A'') = Some (PFloat (5 / 2))
   \<and> snd (process_sales_data text_quantity_sales float_price)
       = Inl (TypeError ''multiply sequence by float'')"
proof -
  have int_case: "process_sales_data text_quantity_sales int_price =
                    (text_quantity_after, Inr (text_quantity_valid, no_rows))"
    by (rule text_quantity_processed)
  have float_case: "snd (process_sales_data text_quantity_sales float_price)
                      = Inl (TypeError ''multiply sequence by float'')"
    by (simp add: text_quantity_sales_def float_price_def eval_defs)
  from int_case float_case show ?thesis
    by (simp add: text_quantity_sales_def text_quantity_valid_def no_rows_def int_price_def
        float_price_def)
qed

subsection \<open>The report\<close>




subsection \<open>The frame of the caller\<close>

text \<open>
  C9, as amended. The processor writes into the sales table it is given: when the table
  has a \<open>Product\<close> column, the caller's table holds a \<open>Unit_Price\<close> cell in every
  row after the call (also when the call raises later on), the column being added as the
  last one or replaced where it stood; the labels, the other columns and their cells are
  unchanged, and \<open>Total_Cost\<close> is not written into it. When the table has no
  \<open>Product\<close> column the call raises \<open>KeyError\<close> and leaves the table as it was.
\<close>

theorem caller_frame_after_processing:
  "(''Product'' \<notin> set (columns df_sales) \<longrightarrow>
      process_sales_data df_sales product_prices = (df_sales, Inl (KeyError ''Product'')))
   \<and> (''Product'' \<in> set (columns df_sales) \<longrightarrow>
        columns (fst (process_sales_data df_sales product_prices))
          = (if ''Unit_Price'' \<in> set (columns df_sales) then columns df_sales
             else columns df_sales @ [''Unit_Price''])
      \<and> labels (fst (process_sales_data df_sales product_prices)) = labels df_sales
      \<and> (\<forall>n<length (rows df_sales).
            map_of (snd (rows (fst (process_sales_data df_sales product_prices)) ! n)) ''Unit_Price''
              \<noteq> None
            \<and> (\<forall>c. c \<noteq> ''Unit_Price'' \<longrightarrow>
                  cell (snd (rows (fst (process_sales_data df_sales product_prices)) ! n)) c
                    = cell (snd (rows df_sales ! n)) c)))"
proof (intro conjI impI)
  assume "''Product'' \<notin> set (columns df_sales)"
  then show "process_sales_data df_sales product_prices = (df_sales, Inl (KeyError ''Product''))"
    by (simp add: process_sales_data_def)
next
  let ?ups = "fillna not_found (series_map (column_values df_sales ''Product'') product_prices)"
  assume "''Product'' \<in> set (columns df_sales)"
  then have df': "fst (process_sales_data df_sales product_prices)
                    = with_column df_sales ''Unit_Price'' ?ups"
    by (simp add: process_sales_data_def Let_def split: sum.splits)
  have len: "length ?ups = length (rows df_sales)" by simp
  show "columns (fst (process_sales_data df_sales product_prices))
          = (if ''Unit_Price'' \<in> set (columns df_sales) then columns df_sales
             else columns df_sales @ [''Unit_Price''])"
    by (simp add: df' with_column_def)
  show "labels (fst (process_sales_data df_sales product_prices)) = labels df_sales"
    unfolding df' by (rule with_column_labels [OF len])
  show "\<forall>n<length (rows df_sales).
            map_of (snd (rows (fst (process_sales_data df_sales product_prices)) ! n)) ''Unit_Price''
              \<noteq> None
            \<and> (\<forall>c. c \<noteq> ''Unit_Price'' \<longrightarrow>
                  cell (snd (rows (fst (process_sales_data df_sales product_prices)) ! n)) c
                    = cell (snd (rows df_sales ! n)) c)"
    unfolding df' using with_column_nth [OF len, of _ "''Unit_Price''"]
    by (simp add: cell_update update_conv')
qed

theorem caller_frame_after_processing_witness:
  "''Product'' \<in> set (columns sales_example)
   \<and> columns (fst (process_sales_data sales_example prices_example))
       = [''Product'', ''Quantity'', ''Unit_Price'']
   \<and> labels (fst (process_sales_data sales_example prices_example)) = [0, 1, 2, 3, 4]
   \<and> map_of (snd (rows (fst (process_sales_data sales_example prices_example)) ! 1)) ''Unit_Price''
       = Some (PStr ''Producto no encontrado'')
   \<and> cell (snd (rows (fst (process_sales_data sales_example prices_example)) ! 1)) ''Quantity''
       = PFloat 1
   \<and> process_sales_data DataFrame prices_example = (DataFrame, Inl (KeyError ''Product''))"
  using caller_frame_after_processing [of sales_example prices_example]
    caller_frame_after_processing [of DataFrame prices_example]
  by (simp add: sales_example_processed sales_example_after_def)
     (simp add: sales_example_def labels_def cell_def DataFrame_def)

text \<open>
  C9 as stated leaves the caller's table unchanged. After the call on the example the
  table has the third column \<open>Unit_Price\<close>.
\<close>

theorem caller_frame_counterexample:
  "fst (process_sales_data sales_example prices_example) = sales_example_after
   \<and> columns sales_example = [''Product'', ''Quantity'']
   \<and> columns sales_example_after = [''Product'', ''Quantity'', ''Unit_Price'']
   \<and> sales_example_after \<noteq> sales_example"
  by (simp add: sales_example_processed) (simp add: sales_example_def sales_example_after_def)

end
